theory Spec2Isabelle
  imports Main
begin

section \<open>Persisted state\<close>

text \<open>
  The four tables of the migrations (\<open>User\<close>, \<open>Payment\<close>, \<open>CreditLedger\<close>,
  \<open>WebhookEvent\<close>). Only the columns that the payment routes and the credits service
  read or write are kept (\<open>id_p\<close> is \<open>Payment.id\<close>); \<open>id\<close> and \<open>createdAt\<close> of ledger
  and event rows are never read.
  \<open>INTEGER\<close> columns are unbounded \<open>int\<close>: a value outside the 32-bit range is a
  store failure that lies outside this model.
\<close>

datatype PaymentStatus = created | paid | failed | refunded

datatype CreditLedgerType = purchase | debit | refund | admin_adjustment

record Payment =
  id_p :: nat
  userId :: nat
  razorpayOrderId :: string
  razorpayPaymentId :: "string option"
  razorpaySignature :: "string option"
  amountPaise :: int
  creditsPurchased :: int
  status :: PaymentStatus

record CreditLedger =
  l_userId :: nat
  delta :: int
  l_type :: CreditLedgerType
  reason :: string
  relatedId :: "string option"

text \<open>
  The JSON body of a webhook, reduced to the paths the handler reads. A path that is
  absent or \<open>null\<close> is \<open>None\<close>; string paths hold strings and amounts hold integers.
\<close>

record WebhookPayload =
  ev_id :: "string option"
  ev_event :: "string option"
  payment_entity_id :: "string option"
  payment_entity_amount :: "int option"
  payment_entity_order_id :: "string option"
  payment_entity_notes_website_id :: "string option"
  order_entity_id :: "string option"
  order_entity_amount :: "int option"
  order_entity_receipt :: "string option"

record WebhookEvent =
  eventId :: string
  e_status :: string
  e_payload :: "WebhookPayload option"

text \<open>
  \<open>users\<close> maps the primary key of a \<open>User\<close> row to its \<open>credits\<close> column. The other
  tables are row lists in insertion order. \<open>CreditLedger.relatedId\<close> carries no unique
  index in the migration; \<open>Payment.razorpayOrderId\<close> and \<open>WebhookEvent.eventId\<close> do.
\<close>

record Db =
  users :: "nat \<rightharpoonup> int"
  payments :: "Payment list"
  creditLedger :: "CreditLedger list"
  webhookEvents :: "WebhookEvent list"

text \<open>
  What a store call or a library call can throw: Prisma's unique violation (\<open>P2002\<close>),
  foreign-key violation (\<open>P2003\<close>), record-not-found (\<open>P2025\<close>), a query validation
  error, a JavaScript \<open>TypeError\<close>, and the error built by \<open>debitCredits\<close>
  (message \<open>Insufficient credits\<close>, \<open>statusCode\<close> 402).
\<close>

datatype Err = P2002 | P2003 | P2025 | ValidationError | TypeError | InsufficientCredits

definition statusCode :: "Err \<Rightarrow> nat option" where
  "statusCode e = (if e = InsufficientCredits then Some 402 else None)"

subsection \<open>Store operations\<close>

definition user_update_increment :: "nat \<Rightarrow> int \<Rightarrow> Db \<Rightarrow> Err + (int \<times> Db)" where
  "user_update_increment uid n s =
     (case users s uid of
        None \<Rightarrow> Inl P2025
      | Some c \<Rightarrow> Inr (c + n, s\<lparr>users := (users s)(uid \<mapsto> c + n)\<rparr>))"

definition creditLedger_create :: "CreditLedger \<Rightarrow> Db \<Rightarrow> Err + Db" where
  "creditLedger_create e s =
     (case users s (l_userId e) of
        None \<Rightarrow> Inl P2003
      | Some _ \<Rightarrow> Inr (s\<lparr>creditLedger := creditLedger s @ [e]\<rparr>))"

definition creditLedger_findFirst :: "string \<Rightarrow> Db \<Rightarrow> CreditLedger option" where
  "creditLedger_findFirst k s = find (\<lambda>e. relatedId e = Some k) (creditLedger s)"

definition payment_findUnique :: "string \<Rightarrow> Db \<Rightarrow> Payment option" where
  "payment_findUnique oid s = find (\<lambda>p. razorpayOrderId p = oid) (payments s)"

definition payment_update_by_id :: "nat \<Rightarrow> (Payment \<Rightarrow> Payment) \<Rightarrow> Db \<Rightarrow> Err + Db" where
  "payment_update_by_id pid f s =
     (if pid \<in> set (map id_p (payments s))
      then Inr (s\<lparr>payments := map (\<lambda>p. if id_p p = pid then f p else p) (payments s)\<rparr>)
      else Inl P2025)"

definition payment_update_by_order :: "string \<Rightarrow> (Payment \<Rightarrow> Payment) \<Rightarrow> Db \<Rightarrow> Err + Db" where
  "payment_update_by_order oid f s =
     (if oid \<in> set (map razorpayOrderId (payments s))
      then Inr (s\<lparr>payments := map (\<lambda>p. if razorpayOrderId p = oid then f p else p) (payments s)\<rparr>)
      else Inl P2025)"

definition webhookEvent_create :: "string \<Rightarrow> Db \<Rightarrow> Err + Db" where
  "webhookEvent_create eid s =
     (if eid \<in> set (map eventId (webhookEvents s))
      then Inl P2002
      else Inr (s\<lparr>webhookEvents := webhookEvents s @
                  [\<lparr>eventId = eid, e_status = ''processing'', e_payload = None\<rparr>]\<rparr>))"

definition webhookEvent_update :: "string \<Rightarrow> string \<Rightarrow> WebhookPayload \<Rightarrow> Db \<Rightarrow> Err + Db" where
  "webhookEvent_update eid st pl s =
     (if eid \<in> set (map eventId (webhookEvents s))
      then Inr (s\<lparr>webhookEvents :=
                  map (\<lambda>e. if eventId e = eid then e\<lparr>e_status := st, e_payload := Some pl\<rparr> else e)
                      (webhookEvents s)\<rparr>)
      else Inl P2025)"

section \<open>Credits service\<close>

text \<open>
  \<open>MODEL_CREDIT_COST[model] ?? 1\<close>. The table is an object literal, so a lookup
  that misses its seven own keys falls through to \<open>Object.prototype\<close>: for the names
  below it yields an inherited function or object, which is neither \<open>null\<close> nor
  \<open>undefined\<close>, and \<open>??\<close> keeps it. Every other name yields \<open>undefined\<close> and
  the default 1.
\<close>

datatype Cost = Num int | Inherited

definition MODEL_CREDIT_COST :: "(string \<times> int) list" where
  "MODEL_CREDIT_COST =
     [(''gpt-5'', 10), (''gpt-5-mini'', 3), (''gpt-5-nano'', 1), (''gemini-2.0-flash'', 1),
      (''gemini-2.5-pro'', 5), (''claude-3.5-sonnet'', 4), (''claude-3.5-haiku'', 3)]"

definition Object_prototype_keys :: "string list" where
  "Object_prototype_keys =
     [''constructor'', ''__defineGetter__'', ''__defineSetter__'', ''hasOwnProperty'',
      ''__lookupGetter__'', ''__lookupSetter__'', ''isPrototypeOf'', ''propertyIsEnumerable'',
      ''toString'', ''valueOf'', ''__proto__'', ''toLocaleString'']"

definition getRequiredCredits :: "string \<Rightarrow> Cost" where
  "getRequiredCredits model =
     (case map_of MODEL_CREDIT_COST model of
        Some c \<Rightarrow> Num c
      | None \<Rightarrow> if model \<in> set Object_prototype_keys then Inherited else Num 1)"

text \<open>
  Each service function is one \<open>prisma.$transaction\<close>: it either returns the updated
  user's balance with the new state, or throws, and then nothing was written (the
  caller keeps the state it had).
\<close>

definition creditCredits :: "nat \<Rightarrow> int \<Rightarrow> string \<Rightarrow> string option \<Rightarrow> Db \<Rightarrow> Err + (int \<times> Db)" where
  "creditCredits uid amount rsn rel s =
     (case user_update_increment uid amount s of
        Inl e \<Rightarrow> Inl e
      | Inr (bal, s1) \<Rightarrow>
          (case creditLedger_create
                  \<lparr>l_userId = uid, delta = amount, l_type = purchase, reason = rsn, relatedId = rel\<rparr> s1 of
             Inl e \<Rightarrow> Inl e
           | Inr s2 \<Rightarrow> Inr (bal, s2)))"

definition debitCredits :: "nat \<Rightarrow> int \<Rightarrow> string \<Rightarrow> string option \<Rightarrow> Db \<Rightarrow> Err + (int \<times> Db)" where
  "debitCredits uid amount rsn rel s =
     (case users s uid of
        None \<Rightarrow> Inl InsufficientCredits
      | Some c \<Rightarrow>
          if c < amount then Inl InsufficientCredits
          else
            (case user_update_increment uid (- amount) s of
               Inl e \<Rightarrow> Inl e
             | Inr (bal, s1) \<Rightarrow>
                 (case creditLedger_create
                         \<lparr>l_userId = uid, delta = - amount, l_type = debit, reason = rsn, relatedId = rel\<rparr> s1 of
                    Inl e \<Rightarrow> Inl e
                  | Inr s2 \<Rightarrow> Inr (bal, s2))))"

text \<open>
  The two service functions on a cost as \<open>getRequiredCredits\<close> returns it. On a
  number they are the functions above. On an inherited function or object the
  comparison \<open>user.credits < amount\<close> is false (the amount converts to \<open>NaN\<close>), and
  Prisma rejects the increment or decrement with a query validation error, so nothing
  is written.
\<close>

definition debitCredits_cost :: "nat \<Rightarrow> Cost \<Rightarrow> string \<Rightarrow> string option \<Rightarrow> Db \<Rightarrow> Err + (int \<times> Db)" where
  "debitCredits_cost uid amount rsn rel s =
     (case amount of
        Num n \<Rightarrow> debitCredits uid n rsn rel s
      | Inherited \<Rightarrow>
          (case users s uid of
             None \<Rightarrow> Inl InsufficientCredits
           | Some c \<Rightarrow> Inl ValidationError))"

definition creditCredits_cost :: "nat \<Rightarrow> Cost \<Rightarrow> string \<Rightarrow> string option \<Rightarrow> Db \<Rightarrow> Err + (int \<times> Db)" where
  "creditCredits_cost uid amount rsn rel s =
     (case amount of
        Num n \<Rightarrow> creditCredits uid n rsn rel s
      | Inherited \<Rightarrow> Inl ValidationError)"

section \<open>Signature verification\<close>

text \<open>
  The process environment, as far as the payment code reads it. An unset variable is
  \<open>None\<close>.
\<close>

record Env =
  SITE_ID :: "string option"
  RAZORPAY_WEBHOOK_SECRET :: "string option"
  RAZORPAY_KEY_SECRET :: "string option"

text \<open>
  \<open>crypto.createHmac('sha256', key).update(body).digest('hex')\<close>. The digest itself
  is the library's: it is the parameter \<open>hmac\<close> (key, then message). With an
  \<open>undefined\<close> key \<open>createHmac\<close> throws a \<open>TypeError\<close>.
\<close>

definition createHmac_digest :: "(string \<Rightarrow> string \<Rightarrow> string) \<Rightarrow> string option \<Rightarrow> string \<Rightarrow> Err + string" where
  "createHmac_digest hmac key body =
     (case key of None \<Rightarrow> Inl TypeError | Some k \<Rightarrow> Inr (hmac k body))"

text \<open>The client verifier: no \<open>try\<close> around the digest, so what it throws leaves the function.\<close>

definition verifyRazorpaySignature ::
  "(string \<Rightarrow> string \<Rightarrow> string) \<Rightarrow> Env \<Rightarrow> string \<Rightarrow> string \<Rightarrow> string \<Rightarrow> Err + bool" where
  "verifyRazorpaySignature hmac env orderId paymentId signature =
     (let body = orderId @ ''|'' @ paymentId in
      case createHmac_digest hmac (RAZORPAY_KEY_SECRET env) body of
        Inl e \<Rightarrow> Inl e
      | Inr expected \<Rightarrow> Inr (expected = signature))"

text \<open>The webhook verifier: the digest sits in a \<open>try\<close> whose \<open>catch\<close> returns false.\<close>

definition verifyWebhookSignature ::
  "(string \<Rightarrow> string \<Rightarrow> string) \<Rightarrow> string \<Rightarrow> string \<Rightarrow> string option \<Rightarrow> Err + bool" where
  "verifyWebhookSignature hmac rawBody signature secret =
     (case createHmac_digest hmac secret rawBody of
        Inl e \<Rightarrow> Inr False
      | Inr expected \<Rightarrow> Inr (expected = signature))"

section \<open>Client verify endpoint\<close>

text \<open>
  What a handler answers: \<open>res.status(c).send(text)\<close>; \<open>res.status(c).json\<close> of
  \<open>{success: false, error}\<close>; the verify endpoint's 200 body
  \<open>{success: true, creditsAdded: 0, balance, message?}\<close>; the upload endpoint's 200
  body; or \<open>next(err)\<close>, which hands the error to the global error handler.
\<close>

datatype Response =
    Send nat string
  | JsonError nat string
  | JsonBalance int "string option"
  | JsonSuccess
  | NextErr Err

record VerifyBody =
  razorpay_order_id :: string
  razorpay_payment_id :: string
  razorpay_signature :: string

text \<open>
  \<open>router.post('/verify')\<close> behind \<open>requireAuth\<close>. \<open>req_user\<close> is \<open>req.user?.id\<close>;
  \<open>body\<close> is the result of \<open>verifySchema.parse\<close>, \<open>None\<close> when it throws a
  \<open>ZodError\<close>. The handler runs outside any transaction: a write stays even when a
  later step throws. Reading \<open>user.credits\<close> of a missing row is a \<open>TypeError\<close>.
\<close>

definition verify_handler ::
  "(string \<Rightarrow> string \<Rightarrow> string) \<Rightarrow> Env \<Rightarrow> nat option \<Rightarrow> VerifyBody option \<Rightarrow> Db \<Rightarrow> Response \<times> Db" where
  "verify_handler hmac env req_user body s =
     (case req_user of
        None \<Rightarrow> (JsonError 401 ''Unauthorized'', s)
      | Some uid \<Rightarrow>
          if uid = 0 then (JsonError 401 ''Unauthorized'', s)
          else
           (case body of
              None \<Rightarrow> (JsonError 400 ''Invalid input'', s)
            | Some b \<Rightarrow>
               (case verifyRazorpaySignature hmac env (razorpay_order_id b)
                       (razorpay_payment_id b) (razorpay_signature b) of
                  Inl e \<Rightarrow> (NextErr e, s)
                | Inr ok \<Rightarrow>
                    if \<not> ok then (JsonError 400 ''Invalid signature'', s)
                    else
                     (case payment_findUnique (razorpay_order_id b) s of
                        None \<Rightarrow> (JsonError 404 ''Payment not found'', s)
                      | Some payment \<Rightarrow>
                          if userId payment \<noteq> uid then (JsonError 404 ''Payment not found'', s)
                          else if status payment = paid then
                            (case users s uid of
                               None \<Rightarrow> (NextErr TypeError, s)
                             | Some c \<Rightarrow> (JsonBalance c None, s))
                          else
                            (case payment_update_by_order (razorpay_order_id b)
                                    (\<lambda>p. p\<lparr>razorpayPaymentId := Some (razorpay_payment_id b),
                                           razorpaySignature := Some (razorpay_signature b)\<rparr>) s of
                               Inl e \<Rightarrow> (NextErr e, s)
                             | Inr s1 \<Rightarrow>
                                 (case users s1 uid of
                                    None \<Rightarrow> (NextErr TypeError, s1)
                                  | Some c \<Rightarrow>
                                      (JsonBalance c
                                         (Some ''Payment verified; credits will be applied once webhook is processed''),
                                       s1)))))))"

section \<open>Webhook endpoint\<close>

subsection \<open>JavaScript operators on the payload\<close>

text \<open>
  Truthiness of an optional string (absent, \<open>null\<close> and the empty string are falsy)
  and of an optional number (absent, \<open>null\<close> and \<open>0\<close> are falsy), and \<open>a || b\<close>,
  which yields \<open>a\<close> when it is truthy and \<open>b\<close> otherwise.
\<close>

definition truthy_s :: "string option \<Rightarrow> bool" where
  "truthy_s a = (case a of None \<Rightarrow> False | Some v \<Rightarrow> v \<noteq> [])"

definition or_s :: "string option \<Rightarrow> string option \<Rightarrow> string option" where
  "or_s a b = (if truthy_s a then a else b)"

definition truthy_n :: "int option \<Rightarrow> bool" where
  "truthy_n a = (case a of None \<Rightarrow> False | Some v \<Rightarrow> v \<noteq> 0)"

definition or_n :: "int option \<Rightarrow> int option \<Rightarrow> int option" where
  "or_n a b = (if truthy_n a then a else b)"

text \<open>\<open>(receipt || '').split(':')[0]\<close>: the text before the first colon.\<close>

definition receipt_head :: "string option \<Rightarrow> string" where
  "receipt_head r =
     takeWhile (\<lambda>c. c \<noteq> CHR '':'') (case or_s r (Some []) of None \<Rightarrow> [] | Some v \<Rightarrow> v)"

definition extract_siteId :: "WebhookPayload \<Rightarrow> string option" where
  "extract_siteId payload =
     or_s (or_s (payment_entity_notes_website_id payload)
                (Some (receipt_head (order_entity_receipt payload))))
          None"

text \<open>
  \<open>siteId !== process.env.SITE_ID\<close>. On the left \<open>None\<close> is \<open>null\<close>, on the right it
  is \<open>undefined\<close>: the two sides are equal only when both are the same string.
\<close>

definition site_differs :: "string option \<Rightarrow> string option \<Rightarrow> bool" where
  "site_differs siteId local =
     (case siteId of
        None \<Rightarrow> True
      | Some a \<Rightarrow> (case local of None \<Rightarrow> True | Some b \<Rightarrow> a \<noteq> b))"

definition reported_amount :: "WebhookPayload \<Rightarrow> int option" where
  "reported_amount payload = or_n (payment_entity_amount payload) (order_entity_amount payload)"

text \<open>The template string \<open>razorpay:${razorpayPaymentId}\<close>; \<open>null\<close> prints as \<open>null\<close>.\<close>

definition ledger_key :: "string option \<Rightarrow> string" where
  "ledger_key paymentId =
     ''razorpay:'' @ (case paymentId of None \<Rightarrow> ''null'' | Some v \<Rightarrow> v)"

definition is_paid_event :: "string option \<Rightarrow> bool" where
  "is_paid_event event =
     (event = Some ''payment.captured'' \<or> event = Some ''payment.authorized''
      \<or> event = Some ''order.paid'')"

subsection \<open>The transaction\<close>

text \<open>The branch on the event type, lines 159 to 180 of the webhook route.\<close>

definition process_event :: "string \<Rightarrow> WebhookPayload \<Rightarrow> Payment \<Rightarrow> Db \<Rightarrow> Err + Db" where
  "process_event signature payload payment s =
     (if is_paid_event (ev_event payload) then
        (let paymentId = or_s (payment_entity_id payload) None;
             mark = (\<lambda>p. p\<lparr>status := paid, razorpayPaymentId := paymentId,
                            razorpaySignature := Some signature\<rparr>)
         in case creditLedger_findFirst (ledger_key paymentId) s of
              None \<Rightarrow>
                (case payment_update_by_id (id_p payment) mark s of
                   Inl e \<Rightarrow> Inl e
                 | Inr s1 \<Rightarrow>
                     (case creditLedger_create
                             \<lparr>l_userId = userId payment, delta = creditsPurchased payment,
                              l_type = purchase, reason = ''payment'',
                              relatedId = Some (ledger_key paymentId)\<rparr> s1 of
                        Inl e \<Rightarrow> Inl e
                      | Inr s2 \<Rightarrow>
                          (case user_update_increment (userId payment) (creditsPurchased payment) s2 of
                             Inl e \<Rightarrow> Inl e
                           | Inr (_, s3) \<Rightarrow> Inr s3)))
            | Some existingLedger \<Rightarrow> payment_update_by_id (id_p payment) mark s)
      else if ev_event payload = Some ''payment.failed'' then
        payment_update_by_id (id_p payment) (\<lambda>p. p\<lparr>status := failed\<rparr>) s
      else Inr s)"

text \<open>
  The callback of \<open>prisma.$transaction\<close>. \<open>Inl\<close> is a throw: the transaction rolls
  back and the caller continues from the state before it. \<open>findUnique\<close> with an
  \<open>undefined\<close> or \<open>null\<close> key is a query validation error.
\<close>

definition webhook_tx :: "Env \<Rightarrow> string \<Rightarrow> WebhookPayload \<Rightarrow> string \<Rightarrow> Db \<Rightarrow> Err + Db" where
  "webhook_tx env signature payload eid s =
     (case webhookEvent_create eid s of
        Inl e \<Rightarrow> Inl e
      | Inr s1 \<Rightarrow>
          if site_differs (extract_siteId payload) (SITE_ID env) then
            webhookEvent_update eid ''ignored'' payload s1
          else
            (case or_s (order_entity_id payload) (payment_entity_order_id payload) of
               None \<Rightarrow> Inl ValidationError
             | Some orderId \<Rightarrow>
                 (case payment_findUnique orderId s1 of
                    None \<Rightarrow> webhookEvent_update eid ''no_local_order'' payload s1
                  | Some payment \<Rightarrow>
                      (let amount = reported_amount payload in
                       if truthy_n amount \<and> amount \<noteq> Some (amountPaise payment) then
                         webhookEvent_update eid ''amount_mismatch'' payload s1
                       else
                         (case process_event signature payload payment s1 of
                            Inl e \<Rightarrow> Inl e
                          | Inr s2 \<Rightarrow> webhookEvent_update eid ''processed'' payload s2)))))"

subsection \<open>The route\<close>

text \<open>
  \<open>router.post('/')\<close> of the webhook router. \<open>raw\<close> is the body as received,
  \<open>sig_header\<close> the \<open>x-razorpay-signature\<close> header, \<open>parse\<close> stands for
  \<open>JSON.parse\<close> followed by the reading of the paths (\<open>None\<close> when it throws). After
  a failed transaction other than \<open>P2002\<close> the handler tries to mark the event
  \<open>error\<close> outside the transaction and swallows a failure of that write.
\<close>

definition webhook_handler ::
  "(string \<Rightarrow> string \<Rightarrow> string) \<Rightarrow> (string \<Rightarrow> WebhookPayload option) \<Rightarrow> Env \<Rightarrow>
   string \<Rightarrow> string option \<Rightarrow> Db \<Rightarrow> Response \<times> Db" where
  "webhook_handler hmac parse env raw sig_header s =
     (if \<not> truthy_s sig_header
         \<or> verifyWebhookSignature hmac raw (case sig_header of None \<Rightarrow> [] | Some v \<Rightarrow> v)
              (RAZORPAY_WEBHOOK_SECRET env) \<noteq> Inr True
      then (Send 400 ''invalid signature'', s)
      else
       (let signature = (case sig_header of None \<Rightarrow> [] | Some v \<Rightarrow> v) in
        case parse raw of
          None \<Rightarrow> (Send 400 ''bad payload'', s)
        | Some payload \<Rightarrow>
            (case or_s (ev_id payload) None of
               None \<Rightarrow> (Send 400 ''missing event id'', s)
             | Some eid \<Rightarrow>
                 (case webhook_tx env signature payload eid s of
                    Inr s' \<Rightarrow> (Send 200 ''ok'', s')
                  | Inl e \<Rightarrow>
                      if e = P2002 then (Send 200 ''ok'', s)
                      else
                        (case webhookEvent_update eid ''error'' payload s of
                           Inl _ \<Rightarrow> (Send 500 ''processing error'', s)
                         | Inr s' \<Rightarrow> (Send 500 ''processing error'', s'))))))"

text \<open>The same request delivered \<open>n\<close> times in a row; the responses are listed in order.\<close>

fun deliver :: "(Db \<Rightarrow> Response \<times> Db) \<Rightarrow> nat \<Rightarrow> Db \<Rightarrow> Response list \<times> Db" where
  "deliver h 0 s = ([], s)"
| "deliver h (Suc n) s =
     (let (r, s1) = h s; (rs, s2) = deliver h n s1 in (r # rs, s2))"

section \<open>Upload endpoint\<close>

subsection \<open>The processing steps\<close>

text \<open>
  Each agent makes one model call. The outcome of that call is the input here:
  \<open>Inl\<close> with the message when the call throws, \<open>Inr\<close> with the content it returns
  (for the test-case generator \<open>Inl\<close> also covers content that does not parse).
  \<open>processImages\<close> and \<open>processImage\<close> rethrow with their own message;
  \<open>generateTestCases\<close> and \<open>evaluateSolutions\<close> catch the failure and return a
  fallback, so they never throw.
\<close>

record Steps =
  ocr_invoke :: "string + string"
  gen_invoke1 :: "string + string"
  gen_invoke2 :: "string + string"
  gen_invoke3 :: "string + string"
  tests_invoke :: "string + string"
  eval_invoke :: "string + string"

definition processImages :: "string + string \<Rightarrow> string + string" where
  "processImages call =
     (case call of Inl e \<Rightarrow> Inl ''Failed to process images with OCR'' | Inr content \<Rightarrow> Inr content)"

definition processImage :: "string + string \<Rightarrow> string + string" where
  "processImage call =
     (case call of
        Inl e \<Rightarrow> Inl (''Failed to generate code solution: '' @ e)
      | Inr content \<Rightarrow> Inr content)"

definition generateTestCases :: "string + string \<Rightarrow> string" where
  "generateTestCases call =
     (case call of Inl e \<Rightarrow> ''default test cases'' | Inr content \<Rightarrow> content)"

definition evaluateSolutions :: "string list \<Rightarrow> string + string \<Rightarrow> string" where
  "evaluateSolutions solutions call =
     (case call of
        Inl e \<Rightarrow> (case solutions of [] \<Rightarrow> ''No valid solution was generated'' | x # _ \<Rightarrow>
                     if x = [] then ''No valid solution was generated'' else x)
      | Inr content \<Rightarrow> content)"

text \<open>
  Lines 164 to 201 of the upload route: OCR, then the three generation calls awaited
  together, then the test cases, then the evaluation. \<open>Inl\<close> is what the \<open>try\<close>
  block throws; of several failing generation calls the first in order is reported
  here (the message is not part of the modelled answer). Progress updates and logging
  are taken not to throw.
\<close>

definition run_pipeline :: "Steps \<Rightarrow> string + string" where
  "run_pipeline st =
     (case processImages (ocr_invoke st) of
        Inl e \<Rightarrow> Inl e
      | Inr problemStatement \<Rightarrow>
          (case processImage (gen_invoke1 st) of
             Inl e \<Rightarrow> Inl e
           | Inr solution1 \<Rightarrow>
               (case processImage (gen_invoke2 st) of
                  Inl e \<Rightarrow> Inl e
                | Inr solution2 \<Rightarrow>
                    (case processImage (gen_invoke3 st) of
                       Inl e \<Rightarrow> Inl e
                     | Inr solution3 \<Rightarrow>
                         (let testCases = generateTestCases (tests_invoke st) in
                          Inr (evaluateSolutions [solution1, solution2, solution3]
                                 (eval_invoke st)))))))"

subsection \<open>The route\<close>

text \<open>
  The part of \<open>router.post('/upload')\<close> that touches credits. \<open>uid\<close> is
  \<open>req.user.id\<close>, \<open>nfiles\<close> the number of uploaded files, \<open>body_model\<close> and
  \<open>providedRequestId\<close> the two body fields, \<open>generated\<close> the request id the handler
  makes up when none is provided, \<open>st\<close> the outcomes of the model calls. A debit error
  other than the 402 one (no status code 402, and a message taken not to contain
  \<open>insufficient\<close>) is rethrown into the outer \<open>catch\<close>, where \<open>debited\<close> is false.
\<close>

definition upload_handler ::
  "nat \<Rightarrow> nat \<Rightarrow> string option \<Rightarrow> string option \<Rightarrow> string \<Rightarrow> Steps \<Rightarrow> Db \<Rightarrow> Response \<times> Db" where
  "upload_handler uid nfiles body_model providedRequestId generated st s =
     (let requestId = (case or_s providedRequestId (Some generated) of None \<Rightarrow> generated | Some v \<Rightarrow> v);
          model = (case or_s body_model (Some ''gpt-4'') of None \<Rightarrow> ''gpt-4'' | Some v \<Rightarrow> v)
      in
      if nfiles = 0 then (JsonError 400 ''No image files provided'', s)
      else if nfiles > 3 then (JsonError 400 ''Maximum of 3 images allowed'', s)
      else
        (let required = getRequiredCredits model in
         case debitCredits_cost uid required (''model:'' @ model) (Some requestId) s of
           Inl debitErr \<Rightarrow>
             if statusCode debitErr = Some 402 then (JsonError 402 ''Insufficient credits'', s)
             else (JsonError 500 ''Failed to process images'', s)
         | Inr (updated, s1) \<Rightarrow>
             (case run_pipeline st of
                Inr bestSolution \<Rightarrow> (JsonSuccess, s1)
              | Inl processingError \<Rightarrow>
                  (case creditCredits_cost uid (getRequiredCredits model) (''refund:'' @ requestId)
                          (Some requestId) s1 of
                     Inl _ \<Rightarrow> (JsonError 500 ''Failed to process images'', s1)
                   | Inr (_, s2) \<Rightarrow> (JsonError 500 ''Failed to process images'', s2)))))"

section \<open>Auxiliary definitions for the statements\<close>

text \<open>
  The state a crediting delivery leaves behind: the order marked paid with the
  provider's payment id and the header signature, one purchase row under the payment's
  key, the balance raised by the purchased credits, and the event marked processed.
\<close>

definition credited :: "string \<Rightarrow> WebhookPayload \<Rightarrow> string \<Rightarrow> Payment \<Rightarrow> int \<Rightarrow> Db \<Rightarrow> Db" where
  "credited signature payload eid payment c s =
     s\<lparr>users := (users s)(userId payment \<mapsto> c + creditsPurchased payment),
       payments := map (\<lambda>p. if id_p p = id_p payment
                             then p\<lparr>status := paid,
                                    razorpayPaymentId := or_s (payment_entity_id payload) None,
                                    razorpaySignature := Some signature\<rparr>
                             else p) (payments s),
       creditLedger := creditLedger s @
         [\<lparr>l_userId = userId payment, delta = creditsPurchased payment, l_type = purchase,
           reason = ''payment'',
           relatedId = Some (ledger_key (or_s (payment_entity_id payload) None))\<rparr>],
       webhookEvents := webhookEvents s @
         [\<lparr>eventId = eid, e_status = ''processed'', e_payload = Some payload\<rparr>]\<rparr>"

text \<open>The non-null keys of a ledger, in row order, and the at-most-one-row-per-key property.\<close>

fun keys_of :: "CreditLedger list \<Rightarrow> string list" where
  "keys_of [] = []"
| "keys_of (e # es) = (case relatedId e of None \<Rightarrow> keys_of es | Some k \<Rightarrow> k # keys_of es)"

definition unique_keys :: "CreditLedger list \<Rightarrow> bool" where
  "unique_keys l = distinct (keys_of l)"

subsection \<open>Concrete data for the runs\<close>

text \<open>
  A stand-in digest (key and message concatenated), an environment, the order of the
  spec's scenario (2000 paise, 4 credits, user 20), a user with 5 credits, and a
  captured-payment event with four variants: amount 1999, another site's tag,
  amount 0, and no amount. The stand-in parser knows the five bodies by a one-letter
  name.
\<close>

definition hmac0 :: "string \<Rightarrow> string \<Rightarrow> string" where
  "hmac0 k m = k @ m"

definition env0 :: Env where
  "env0 = \<lparr>SITE_ID = Some ''site_a'', RAZORPAY_WEBHOOK_SECRET = Some ''whs'',
           RAZORPAY_KEY_SECRET = Some ''ks''\<rparr>"

definition order0 :: Payment where
  "order0 = \<lparr>id_p = 10, userId = 20, razorpayOrderId = ''o1'', razorpayPaymentId = None,
             razorpaySignature = None, amountPaise = 2000, creditsPurchased = 4,
             status = created\<rparr>"

definition db0 :: Db where
  "db0 = \<lparr>users = [20 \<mapsto> 5], payments = [order0], creditLedger = [], webhookEvents = []\<rparr>"

definition event0 :: WebhookPayload where
  "event0 = \<lparr>ev_id = Some ''evt_1'', ev_event = Some ''payment.captured'',
             payment_entity_id = Some ''pay_1'', payment_entity_amount = Some 2000,
             payment_entity_order_id = Some ''o1'',
             payment_entity_notes_website_id = Some ''site_a'',
             order_entity_id = Some ''o1'', order_entity_amount = Some 2000,
             order_entity_receipt = None\<rparr>"

definition parse0 :: "string \<Rightarrow> WebhookPayload option" where
  "parse0 raw =
     (if raw = ''A'' then Some event0
      else if raw = ''B'' then Some (event0\<lparr>payment_entity_amount := Some 1999\<rparr>)
      else if raw = ''C'' then Some (event0\<lparr>payment_entity_notes_website_id := Some ''site_b''\<rparr>)
      else if raw = ''D'' then Some (event0\<lparr>payment_entity_amount := Some 0, order_entity_amount := Some 0\<rparr>)
      else if raw = ''E'' then Some (event0\<lparr>payment_entity_amount := None, order_entity_amount := None\<rparr>)
      else None)"

text \<open>Model-call outcomes: all succeed; the OCR call throws; the evaluation call throws.\<close>

definition steps_ok :: Steps where
  "steps_ok = \<lparr>ocr_invoke = Inr ''problem'', gen_invoke1 = Inr ''sol1'', gen_invoke2 = Inr ''sol2'',
               gen_invoke3 = Inr ''sol3'', tests_invoke = Inr ''[]'', eval_invoke = Inr ''best''\<rparr>"

definition steps_ocr_throws :: Steps where
  "steps_ocr_throws = steps_ok\<lparr>ocr_invoke := Inl ''timeout''\<rparr>"

definition steps_eval_throws :: Steps where
  "steps_eval_throws = steps_ok\<lparr>eval_invoke := Inl ''timeout''\<rparr>"

lemmas fixtures = hmac0_def env0_def order0_def db0_def event0_def parse0_def

lemmas js_ops = truthy_s_def or_s_def truthy_n_def or_n_def receipt_head_def extract_siteId_def
  site_differs_def reported_amount_def ledger_key_def is_paid_event_def

lemmas run_defs = fixtures js_ops verifyWebhookSignature_def createHmac_digest_def
  payment_findUnique_def creditLedger_findFirst_def

section \<open>Store and handler lemmas\<close>

lemma find_SomeD: "find P xs = Some x \<Longrightarrow> x \<in> set xs \<and> P x"
  by (induction xs) (auto split: if_splits)

lemma webhookEvent_create_fresh:
  "eid \<notin> set (map eventId (webhookEvents s)) \<Longrightarrow>
   webhookEvent_create eid s =
     Inr (s\<lparr>webhookEvents := webhookEvents s @
            [\<lparr>eventId = eid, e_status = ''processing'', e_payload = None\<rparr>]\<rparr>)"
  by (simp add: webhookEvent_create_def)

lemma map_other_events:
  "eid \<notin> set (map eventId evs) \<Longrightarrow> map (\<lambda>e. if eventId e = eid then f e else e) evs = evs"
  by (induction evs) auto

lemma webhookEvent_update_last:
  "eid \<notin> set (map eventId evs) \<Longrightarrow>
   webhookEvents s = evs @ [\<lparr>eventId = eid, e_status = st0, e_payload = pl0\<rparr>] \<Longrightarrow>
   webhookEvent_update eid st pl s =
     Inr (s\<lparr>webhookEvents := evs @ [\<lparr>eventId = eid, e_status = st, e_payload = Some pl\<rparr>]\<rparr>)"
  by (simp add: webhookEvent_update_def map_other_events)

lemma process_event_credit:
  assumes "is_paid_event (ev_event payload)"
    and "payment \<in> set (payments s)"
    and "users s (userId payment) = Some c"
    and "creditLedger_findFirst (ledger_key (or_s (payment_entity_id payload) None)) s = None"
  shows "process_event signature payload payment s =
     Inr (s\<lparr>users := (users s)(userId payment \<mapsto> c + creditsPurchased payment),
       payments := map (\<lambda>p. if id_p p = id_p payment
                             then p\<lparr>status := paid,
                                    razorpayPaymentId := or_s (payment_entity_id payload) None,
                                    razorpaySignature := Some signature\<rparr>
                             else p) (payments s),
       creditLedger := creditLedger s @
         [\<lparr>l_userId = userId payment, delta = creditsPurchased payment, l_type = purchase,
           reason = ''payment'',
           relatedId = Some (ledger_key (or_s (payment_entity_id payload) None))\<rparr>]\<rparr>)"
  using assms
  by (simp add: process_event_def Let_def payment_update_by_id_def creditLedger_create_def
        user_update_increment_def creditLedger_findFirst_def)

text \<open>
  A first delivery that passes the scope, order and amount checks of the transaction
  and finds no ledger row under the payment's key credits the order's owner.
\<close>

lemma webhook_tx_credit:
  assumes fresh: "eid \<notin> set (map eventId (webhookEvents s))"
    and site: "\<not> site_differs (extract_siteId payload) (SITE_ID env)"
    and oid: "or_s (order_entity_id payload) (payment_entity_order_id payload) = Some oid"
    and pay: "payment_findUnique oid s = Some payment"
    and amt: "\<not> (truthy_n (reported_amount payload)
                 \<and> reported_amount payload \<noteq> Some (amountPaise payment))"
    and ev: "is_paid_event (ev_event payload)"
    and usr: "users s (userId payment) = Some c"
    and key: "creditLedger_findFirst (ledger_key (or_s (payment_entity_id payload) None)) s = None"
  shows "webhook_tx env signature payload eid s = Inr (credited signature payload eid payment c s)"
proof -
  let ?s1 = "s\<lparr>webhookEvents := webhookEvents s @
            [\<lparr>eventId = eid, e_status = ''processing'', e_payload = None\<rparr>]\<rparr>"
  have c: "webhookEvent_create eid s = Inr ?s1"
    using fresh by (rule webhookEvent_create_fresh)
  have mem: "payment \<in> set (payments ?s1)"
    using pay by (auto simp: payment_findUnique_def dest: find_SomeD)
  have pay1: "payment_findUnique oid ?s1 = Some payment"
    using pay by (simp add: payment_findUnique_def)
  have usr1: "users ?s1 (userId payment) = Some c" using usr by simp
  have key1: "creditLedger_findFirst (ledger_key (or_s (payment_entity_id payload) None)) ?s1 = None"
    using key by (simp add: creditLedger_findFirst_def)
  note pe = process_event_credit [OF ev mem usr1 key1, of signature]
  show ?thesis
    using site oid amt fresh
    by (auto simp: webhook_tx_def c pay1 Let_def pe credited_def
          webhookEvent_update_last [OF fresh])
qed

lemma webhook_handler_admitted:
  assumes "sig_header = Some signature" and "signature \<noteq> []"
    and "verifyWebhookSignature hmac raw signature (RAZORPAY_WEBHOOK_SECRET env) = Inr True"
    and "parse raw = Some payload"
    and "or_s (ev_id payload) None = Some eid"
    and "webhook_tx env signature payload eid s = Inr s'"
  shows "webhook_handler hmac parse env raw sig_header s = (Send 200 ''ok'', s')"
  using assms by (simp add: webhook_handler_def Let_def truthy_s_def)

lemma webhook_handler_replay:
  assumes "sig_header = Some signature" and "signature \<noteq> []"
    and "verifyWebhookSignature hmac raw signature (RAZORPAY_WEBHOOK_SECRET env) = Inr True"
    and "parse raw = Some payload"
    and "or_s (ev_id payload) None = Some eid"
    and "eid \<in> set (map eventId (webhookEvents s))"
  shows "webhook_handler hmac parse env raw sig_header s = (Send 200 ''ok'', s)"
  using assms
  by (simp add: webhook_handler_def webhook_tx_def webhookEvent_create_def Let_def truthy_s_def)

lemma deliver_fixed:
  "h s = (r, s) \<Longrightarrow> deliver h n s = (replicate n r, s)"
  by (induction n) simp_all

lemma webhookEvent_update_frame:
  "webhookEvent_update eid st pl s = Inr s' \<Longrightarrow>
   users s' = users s \<and> payments s' = payments s \<and> creditLedger s' = creditLedger s"
  by (auto simp: webhookEvent_update_def split: if_splits)

lemma webhookEvent_create_frame:
  "webhookEvent_create eid s = Inr s' \<Longrightarrow>
   users s' = users s \<and> payments s' = payments s \<and> creditLedger s' = creditLedger s"
  by (auto simp: webhookEvent_create_def split: if_splits)

text \<open>Outside a successful transaction the handler writes event markers only.\<close>

lemma webhook_handler_frame_tx:
  assumes "\<And>signature payload eid s'. parse raw = Some payload \<Longrightarrow>
             webhook_tx env signature payload eid s = Inr s' \<Longrightarrow>
             users s' = users s \<and> payments s' = payments s \<and> creditLedger s' = creditLedger s"
  shows "users (snd (webhook_handler hmac parse env raw sig_header s)) = users s
       \<and> payments (snd (webhook_handler hmac parse env raw sig_header s)) = payments s
       \<and> creditLedger (snd (webhook_handler hmac parse env raw sig_header s)) = creditLedger s"
proof (cases "parse raw")
  case None
  then show ?thesis by (simp add: webhook_handler_def Let_def)
next
  case (Some payload)
  show ?thesis
  proof (cases "or_s (ev_id payload) None")
    case None
    then show ?thesis using Some by (simp add: webhook_handler_def Let_def)
  next
    case (Some eid)
    note ei = this
    let ?sig = "case sig_header of None \<Rightarrow> [] | Some v \<Rightarrow> v"
    show ?thesis
    proof (cases "webhook_tx env ?sig payload eid s")
      case (Inl e)
      then show ?thesis
        using \<open>parse raw = Some payload\<close> ei
        by (auto simp: webhook_handler_def Let_def split: sum.splits dest: webhookEvent_update_frame)
    next
      case (Inr s')
      from assms [OF \<open>parse raw = Some payload\<close> Inr] Inr show ?thesis
        using \<open>parse raw = Some payload\<close> ei
        by (simp add: webhook_handler_def Let_def)
    qed
  qed
qed

lemma webhook_tx_ignored:
  assumes "site_differs (extract_siteId payload) (SITE_ID env)"
  shows "webhook_tx env signature payload eid s =
           (case webhookEvent_create eid s of Inl e \<Rightarrow> Inl e
            | Inr s1 \<Rightarrow> webhookEvent_update eid ''ignored'' payload s1)"
  using assms by (simp add: webhook_tx_def split: sum.splits)

lemma webhook_tx_mismatch:
  assumes site: "\<not> site_differs (extract_siteId payload) (SITE_ID env)"
    and oid: "or_s (order_entity_id payload) (payment_entity_order_id payload) = Some oid"
    and pay: "payment_findUnique oid s = Some payment"
    and amt: "truthy_n (reported_amount payload)"
             "reported_amount payload \<noteq> Some (amountPaise payment)"
  shows "webhook_tx env signature payload eid s =
           (case webhookEvent_create eid s of Inl e \<Rightarrow> Inl e
            | Inr s1 \<Rightarrow> webhookEvent_update eid ''amount_mismatch'' payload s1)"
proof (cases "webhookEvent_create eid s")
  case (Inl e)
  then show ?thesis by (simp add: webhook_tx_def)
next
  case (Inr s1)
  then have "payments s1 = payments s" by (auto dest: webhookEvent_create_frame)
  then have "payment_findUnique oid s1 = Some payment"
    using pay by (simp add: payment_findUnique_def)
  then show ?thesis using Inr site oid amt by (simp add: webhook_tx_def Let_def)
qed

lemma keys_of_append: "keys_of (xs @ ys) = keys_of xs @ keys_of ys"
  by (induction xs) (auto split: option.splits)

lemma find_None_keys:
  "find (\<lambda>e. relatedId e = Some k) l = None \<Longrightarrow> k \<notin> set (keys_of l)"
  by (induction l) (auto split: option.splits if_splits)

lemma process_event_ledger:
  "process_event signature payload payment s = Inr s' \<Longrightarrow>
   creditLedger s' = creditLedger s
   \<or> (\<exists>k e. creditLedger_findFirst k s = None \<and> relatedId e = Some k
            \<and> creditLedger s' = creditLedger s @ [e])"
  by (auto simp: process_event_def Let_def payment_update_by_id_def creditLedger_create_def
        user_update_increment_def creditLedger_findFirst_def
        split: if_splits option.splits sum.splits)

lemma webhook_tx_ledger:
  assumes "webhook_tx env signature payload eid s = Inr s'"
  shows "creditLedger s' = creditLedger s
   \<or> (\<exists>k e. creditLedger_findFirst k s = None \<and> relatedId e = Some k
            \<and> creditLedger s' = creditLedger s @ [e])"
proof (cases "webhookEvent_create eid s")
  case (Inl e)
  with assms show ?thesis by (simp add: webhook_tx_def)
next
  case (Inr s1)
  then have l1: "creditLedger s1 = creditLedger s" by (auto dest: webhookEvent_create_frame)
  have up: "creditLedger t' = creditLedger t" if "webhookEvent_update eid st payload t = Inr t'" for st t t'
    using that by (auto dest: webhookEvent_update_frame)
  show ?thesis
  proof (cases "\<exists>payment s2. process_event signature payload payment s1 = Inr s2
                  \<and> webhookEvent_update eid ''processed'' payload s2 = Inr s'")
    case True
    then obtain payment s2 where pe: "process_event signature payload payment s1 = Inr s2"
      and u: "webhookEvent_update eid ''processed'' payload s2 = Inr s'" by blast
    from process_event_ledger [OF pe] up [OF u] l1 show ?thesis
      by (auto simp: creditLedger_findFirst_def)
  next
    case False
    with assms Inr have "\<exists>st. webhookEvent_update eid st payload s1 = Inr s'"
      by (auto simp: webhook_tx_def Let_def split: if_splits option.splits sum.splits)
    then show ?thesis using up l1 by auto
  qed
qed

lemma webhook_handler_ledger:
  "creditLedger (snd (webhook_handler hmac parse env raw sig_header s)) = creditLedger s
   \<or> (\<exists>k e. creditLedger_findFirst k s = None \<and> relatedId e = Some k
            \<and> creditLedger (snd (webhook_handler hmac parse env raw sig_header s)) = creditLedger s @ [e])"
  by (auto simp: webhook_handler_def Let_def split: option.splits sum.splits
           dest: webhookEvent_update_frame webhook_tx_ledger)


section \<open>Webhook delivery\<close>

text \<open>
  C1. Take a webhook request with a non-empty signature header that verifies, a body
  that parses to an event with an id not yet marked, the deployment's own site tag, an
  order id that finds a stored order, a reported amount equal to the order's
  \<open>amountPaise\<close>, and type captured, authorized or order-paid; let the order's owner
  exist and let no ledger row carry the payment's key yet. Delivering this request
  \<open>n \<ge> 1\<close> times in a row answers 200 every time and leaves, whatever \<open>n\<close> is, the
  state of a single crediting: exactly one new ledger row (the purchase under
  \<open>razorpay:<paymentId>\<close>, with the order's purchased credits as delta), the owner's
  balance raised by that amount once, the order paid, the event processed. Deliveries
  after the first therefore change nothing.
\<close>

theorem webhook_idempotent_delivery:
  assumes sh: "sig_header = Some signature" and sg: "signature \<noteq> []"
    and vf: "verifyWebhookSignature hmac raw signature (RAZORPAY_WEBHOOK_SECRET env) = Inr True"
    and ps: "parse raw = Some payload"
    and ei: "or_s (ev_id payload) None = Some eid"
    and fresh: "eid \<notin> set (map eventId (webhookEvents s))"
    and site: "\<not> site_differs (extract_siteId payload) (SITE_ID env)"
    and oid: "or_s (order_entity_id payload) (payment_entity_order_id payload) = Some oid"
    and pay: "payment_findUnique oid s = Some payment"
    and amt: "reported_amount payload = Some (amountPaise payment)"
    and ev: "is_paid_event (ev_event payload)"
    and usr: "users s (userId payment) = Some c"
    and key: "creditLedger_findFirst (ledger_key (or_s (payment_entity_id payload) None)) s = None"
    and n: "0 < n"
  shows "deliver (webhook_handler hmac parse env raw sig_header) n s =
           (replicate n (Send 200 ''ok''),
            s\<lparr>users := (users s)(userId payment \<mapsto> c + creditsPurchased payment),
              payments := map (\<lambda>p. if id_p p = id_p payment
                             then p\<lparr>status := paid,
                                    razorpayPaymentId := or_s (payment_entity_id payload) None,
                                    razorpaySignature := Some signature\<rparr>
                             else p) (payments s),
              creditLedger := creditLedger s @
                [\<lparr>l_userId = userId payment, delta = creditsPurchased payment, l_type = purchase,
                  reason = ''payment'',
                  relatedId = Some (ledger_key (or_s (payment_entity_id payload) None))\<rparr>],
              webhookEvents := webhookEvents s @
                [\<lparr>eventId = eid, e_status = ''processed'', e_payload = Some payload\<rparr>]\<rparr>)"
proof -
  let ?h = "webhook_handler hmac parse env raw sig_header"
  let ?s' = "credited signature payload eid payment c s"
  have g: "\<not> (truthy_n (reported_amount payload)
              \<and> reported_amount payload \<noteq> Some (amountPaise payment))"
    using amt by simp
  have tx: "webhook_tx env signature payload eid s = Inr ?s'"
    by (rule webhook_tx_credit [OF fresh site oid pay g ev usr key])
  have first: "?h s = (Send 200 ''ok'', ?s')"
    using sh sg vf ps ei tx by (rule webhook_handler_admitted)
  have seen: "eid \<in> set (map eventId (webhookEvents ?s'))"
    by (simp add: credited_def)
  have again: "?h ?s' = (Send 200 ''ok'', ?s')"
    using sh sg vf ps ei seen by (rule webhook_handler_replay)
  obtain m where m: "n = Suc m" using n by (cases n) auto
  have rest: "deliver ?h m ?s' = (replicate m (Send 200 ''ok''), ?s')"
    using again by (rule deliver_fixed [where h = "?h"])
  have "deliver ?h n s = (replicate n (Send 200 ''ok''), ?s')"
    by (simp add: m first rest)
  then show ?thesis by (simp add: credited_def)
qed

theorem webhook_idempotent_delivery_witness:
  "deliver (webhook_handler hmac0 parse0 env0 ''A'' (Some ''whsA'')) 2 db0 =
     ([Send 200 ''ok'', Send 200 ''ok''],
      db0\<lparr>users := [20 \<mapsto> 9],
          payments := [order0\<lparr>status := paid, razorpayPaymentId := Some ''pay_1'',
                              razorpaySignature := Some ''whsA''\<rparr>],
          creditLedger := [\<lparr>l_userId = 20, delta = 4, l_type = purchase, reason = ''payment'',
                            relatedId = Some ''razorpay:pay_1''\<rparr>],
          webhookEvents := [\<lparr>eventId = ''evt_1'', e_status = ''processed'',
                             e_payload = Some event0\<rparr>]\<rparr>)"
  using webhook_idempotent_delivery [where sig_header = "Some ''whsA''" and signature = "''whsA''"
      and hmac = hmac0 and raw = "''A''" and env = env0 and parse = parse0 and payload = event0
      and eid = "''evt_1''" and s = db0 and oid = "''o1''" and payment = order0 and c = 5
      and n = 2]
  by (simp add: fixtures js_ops verifyWebhookSignature_def createHmac_digest_def
        payment_findUnique_def creditLedger_findFirst_def numeral_2_eq_2)

section \<open>Ledger keys\<close>

text \<open>
  C2, as the code has it. The ledger table carries no uniqueness constraint on
  \<open>relatedId\<close>, so \<open>creditLedger_create\<close> never rejects a row for its key. The webhook
  route keeps the property that no key occurs twice: whatever the request, a ledger
  whose keys are distinct stays so, because the route appends a row only after finding
  none under that key. \<open>creditCredits\<close> and \<open>debitCredits\<close> append their row under the
  key they are given without looking: the keys afterwards are the keys before followed
  by that key (none when it is null).
\<close>

theorem ledger_key_uniqueness:
  "(unique_keys (creditLedger s) \<longrightarrow>
      unique_keys (creditLedger (snd (webhook_handler hmac parse env raw sig_header s))))
   \<and> (\<forall>bal s'. creditCredits uid amount rsn rel s = Inr (bal, s') \<longrightarrow>
         keys_of (creditLedger s') =
           keys_of (creditLedger s) @ (case rel of None \<Rightarrow> [] | Some k \<Rightarrow> [k]))
   \<and> (\<forall>bal s'. debitCredits uid amount rsn rel s = Inr (bal, s') \<longrightarrow>
         keys_of (creditLedger s') =
           keys_of (creditLedger s) @ (case rel of None \<Rightarrow> [] | Some k \<Rightarrow> [k]))"
proof (intro conjI impI allI)
  assume u: "unique_keys (creditLedger s)"
  from webhook_handler_ledger [of hmac parse env raw sig_header s]
  show "unique_keys (creditLedger (snd (webhook_handler hmac parse env raw sig_header s)))"
    using u
    by (auto simp: unique_keys_def keys_of_append creditLedger_findFirst_def dest: find_None_keys)
next
  fix bal s' assume "creditCredits uid amount rsn rel s = Inr (bal, s')"
  then show "keys_of (creditLedger s') =
           keys_of (creditLedger s) @ (case rel of None \<Rightarrow> [] | Some k \<Rightarrow> [k])"
    by (auto simp: creditCredits_def user_update_increment_def creditLedger_create_def
          keys_of_append split: option.splits sum.splits if_splits)
next
  fix bal s' assume "debitCredits uid amount rsn rel s = Inr (bal, s')"
  then show "keys_of (creditLedger s') =
           keys_of (creditLedger s) @ (case rel of None \<Rightarrow> [] | Some k \<Rightarrow> [k])"
    by (auto simp: debitCredits_def user_update_increment_def creditLedger_create_def
          keys_of_append split: option.splits sum.splits if_splits)
qed

theorem ledger_key_uniqueness_witness:
  "unique_keys (creditLedger db0)
   \<and> unique_keys (creditLedger (snd (webhook_handler hmac0 parse0 env0 ''A'' (Some ''whsA'') db0)))
   \<and> creditCredits 20 1 ''bonus'' (Some ''k1'') db0 =
       Inr (6, db0\<lparr>users := [20 \<mapsto> 6],
                   creditLedger := [\<lparr>l_userId = 20, delta = 1, l_type = purchase,
                                     reason = ''bonus'', relatedId = Some ''k1''\<rparr>]\<rparr>)
   \<and> debitCredits 20 3 ''model:gpt-5-mini'' None db0 =
       Inr (2, db0\<lparr>users := [20 \<mapsto> 2],
                   creditLedger := [\<lparr>l_userId = 20, delta = - 3, l_type = debit,
                                     reason = ''model:gpt-5-mini'', relatedId = None\<rparr>]\<rparr>)
   \<and> keys_of [\<lparr>l_userId = 20, delta = 1, l_type = purchase,
                reason = ''bonus'', relatedId = Some ''k1''\<rparr>] = [''k1'']
   \<and> keys_of [\<lparr>l_userId = 20, delta = - 3, l_type = debit,
                reason = ''model:gpt-5-mini'', relatedId = None\<rparr>] = []"
proof -
  have c: "creditCredits 20 1 ''bonus'' (Some ''k1'') db0 =
       Inr (6, db0\<lparr>users := [20 \<mapsto> 6],
                   creditLedger := [\<lparr>l_userId = 20, delta = 1, l_type = purchase,
                                     reason = ''bonus'', relatedId = Some ''k1''\<rparr>]\<rparr>)"
    by (simp add: db0_def creditCredits_def user_update_increment_def creditLedger_create_def)
  have d: "debitCredits 20 3 ''model:gpt-5-mini'' None db0 =
       Inr (2, db0\<lparr>users := [20 \<mapsto> 2],
                   creditLedger := [\<lparr>l_userId = 20, delta = - 3, l_type = debit,
                                     reason = ''model:gpt-5-mini'', relatedId = None\<rparr>]\<rparr>)"
    by (simp add: db0_def debitCredits_def user_update_increment_def creditLedger_create_def)
  have u: "unique_keys (creditLedger db0)" by (simp add: db0_def unique_keys_def)
  from ledger_key_uniqueness [where s = db0 and hmac = hmac0 and parse = parse0 and env = env0
      and raw = "''A''" and sig_header = "Some ''whsA''" and uid = 20 and amount = 1
      and rsn = "''bonus''" and rel = "Some ''k1''"]
    ledger_key_uniqueness [where s = db0 and uid = 20 and amount = 3
      and rsn = "''model:gpt-5-mini''" and rel = None]
    c d u
  show ?thesis by simp
qed

text \<open>
  Two calls of \<open>creditCredits\<close> with the same key both succeed and leave two ledger
  rows under that key.
\<close>

theorem creditCredits_duplicate_key:
  "unique_keys (creditLedger db0)
   \<and> creditCredits 20 1 ''bonus'' (Some ''k1'') db0 =
       Inr (6, db0\<lparr>users := [20 \<mapsto> 6],
                   creditLedger := [\<lparr>l_userId = 20, delta = 1, l_type = purchase,
                                     reason = ''bonus'', relatedId = Some ''k1''\<rparr>]\<rparr>)
   \<and> creditCredits 20 1 ''bonus'' (Some ''k1'')
         (db0\<lparr>users := [20 \<mapsto> 6],
              creditLedger := [\<lparr>l_userId = 20, delta = 1, l_type = purchase,
                                reason = ''bonus'', relatedId = Some ''k1''\<rparr>]\<rparr>) =
       Inr (7, db0\<lparr>users := [20 \<mapsto> 7],
                   creditLedger := [\<lparr>l_userId = 20, delta = 1, l_type = purchase,
                                     reason = ''bonus'', relatedId = Some ''k1''\<rparr>,
                                    \<lparr>l_userId = 20, delta = 1, l_type = purchase,
                                     reason = ''bonus'', relatedId = Some ''k1''\<rparr>]\<rparr>)
   \<and> \<not> unique_keys [\<lparr>l_userId = 20, delta = 1, l_type = purchase,
                        reason = ''bonus'', relatedId = Some ''k1''\<rparr>,
                       \<lparr>l_userId = 20, delta = 1, l_type = purchase,
                        reason = ''bonus'', relatedId = Some ''k1''\<rparr>]"
  by (simp add: db0_def creditCredits_def user_update_increment_def creditLedger_create_def
        unique_keys_def)


section \<open>Amount check\<close>

text \<open>
  C3, as the code has it. Let the event's order id find a stored order and let the
  reported amount (\<open>payment.entity.amount\<close>, else \<open>order.entity.amount\<close>) be non-zero
  and different from the order's \<open>amountPaise\<close>. Then the delivery, whatever its
  signature, site tag and event marker, leaves the ledger, every balance and every
  order as they were; and when it is admitted (header signature verifies, event id
  present and not yet marked) and carries this deployment's site tag, the answer is 200
  and the event is marked \<open>amount_mismatch\<close>.
\<close>

theorem webhook_amount_mismatch:
  assumes ps: "parse raw = Some payload"
    and oid: "or_s (order_entity_id payload) (payment_entity_order_id payload) = Some oid"
    and pay: "payment_findUnique oid s = Some payment"
    and amt: "reported_amount payload = Some a" and nz: "a \<noteq> 0" and ne: "a \<noteq> amountPaise payment"
  shows "users (snd (webhook_handler hmac parse env raw sig_header s)) = users s
       \<and> payments (snd (webhook_handler hmac parse env raw sig_header s)) = payments s
       \<and> creditLedger (snd (webhook_handler hmac parse env raw sig_header s)) = creditLedger s
       \<and> (\<forall>signature eid.
            sig_header = Some signature \<and> signature \<noteq> []
            \<and> verifyWebhookSignature hmac raw signature (RAZORPAY_WEBHOOK_SECRET env) = Inr True
            \<and> or_s (ev_id payload) None = Some eid
            \<and> eid \<notin> set (map eventId (webhookEvents s))
            \<and> \<not> site_differs (extract_siteId payload) (SITE_ID env)
            \<longrightarrow> webhook_handler hmac parse env raw sig_header s =
                  (Send 200 ''ok'',
                   s\<lparr>webhookEvents := webhookEvents s @
                       [\<lparr>eventId = eid, e_status = ''amount_mismatch'',
                         e_payload = Some payload\<rparr>]\<rparr>))"
proof -
  have t: "truthy_n (reported_amount payload)" using amt nz by (simp add: truthy_n_def)
  have d: "reported_amount payload \<noteq> Some (amountPaise payment)" using amt ne by simp
  have frame: "users s' = users s \<and> payments s' = payments s \<and> creditLedger s' = creditLedger s"
    if "parse raw = Some pl" and "webhook_tx env sg pl eid s = Inr s'" for sg pl eid s'
  proof -
    from that(1) ps have pl: "pl = payload" by simp
    show ?thesis
    proof (cases "site_differs (extract_siteId payload) (SITE_ID env)")
      case True
      with that(2) pl show ?thesis
        by (auto simp: webhook_tx_ignored split: sum.splits
                 dest!: webhookEvent_update_frame webhookEvent_create_frame)
    next
      case False
      with that(2) pl show ?thesis
        by (auto simp: webhook_tx_mismatch [OF False oid pay t d] split: sum.splits
                 dest!: webhookEvent_update_frame webhookEvent_create_frame)
    qed
  qed
  have adm: "webhook_handler hmac parse env raw sig_header s =
                  (Send 200 ''ok'',
                   s\<lparr>webhookEvents := webhookEvents s @
                       [\<lparr>eventId = eid, e_status = ''amount_mismatch'', e_payload = Some payload\<rparr>]\<rparr>)"
    if sh: "sig_header = Some signature" and sg: "signature \<noteq> []"
      and vf: "verifyWebhookSignature hmac raw signature (RAZORPAY_WEBHOOK_SECRET env) = Inr True"
      and ei: "or_s (ev_id payload) None = Some eid"
      and fresh: "eid \<notin> set (map eventId (webhookEvents s))"
      and site: "\<not> site_differs (extract_siteId payload) (SITE_ID env)" for signature eid
  proof -
    have "webhook_tx env signature payload eid s =
            Inr (s\<lparr>webhookEvents := webhookEvents s @
                       [\<lparr>eventId = eid, e_status = ''amount_mismatch'', e_payload = Some payload\<rparr>]\<rparr>)"
      using fresh
      by (simp add: webhook_tx_mismatch [OF site oid pay t d] webhookEvent_create_fresh
            webhookEvent_update_last [OF fresh])
    with sh sg vf ps ei show ?thesis by (rule webhook_handler_admitted)
  qed
  have fr: "users (snd (webhook_handler hmac parse env raw sig_header s)) = users s
       \<and> payments (snd (webhook_handler hmac parse env raw sig_header s)) = payments s
       \<and> creditLedger (snd (webhook_handler hmac parse env raw sig_header s)) = creditLedger s"
  proof (rule webhook_handler_frame_tx)
    fix sg pl eid s'
    assume "parse raw = Some pl" and "webhook_tx env sg pl eid s = Inr s'"
    then show "users s' = users s \<and> payments s' = payments s \<and> creditLedger s' = creditLedger s"
      by (rule frame)
  qed
  from fr adm show ?thesis by blast
qed

theorem webhook_amount_mismatch_witness:
  "webhook_handler hmac0 parse0 env0 ''B'' (Some ''whsB'') db0 =
     (Send 200 ''ok'',
      db0\<lparr>webhookEvents :=
            [\<lparr>eventId = ''evt_1'', e_status = ''amount_mismatch'',
              e_payload = Some (event0\<lparr>payment_entity_amount := Some 1999\<rparr>)\<rparr>]\<rparr>)"
  using webhook_amount_mismatch [where parse = parse0 and raw = "''B''" and env = env0
      and payload = "event0\<lparr>payment_entity_amount := Some 1999\<rparr>" and oid = "''o1''"
      and payment = order0 and a = 1999
      and hmac = hmac0 and sig_header = "Some ''whsB''" and s = db0]
  by (simp add: run_defs)

text \<open>
  An event that reports the amount 0 for the order of 2000 paise passes the check: it
  is credited in full and the order is marked paid.
\<close>

theorem webhook_zero_amount_credited:
  "parse0 ''D'' = Some (event0\<lparr>payment_entity_amount := Some 0, order_entity_amount := Some 0\<rparr>)
   \<and> reported_amount (event0\<lparr>payment_entity_amount := Some 0, order_entity_amount := Some 0\<rparr>) = Some 0
   \<and> amountPaise order0 = 2000
   \<and> webhook_handler hmac0 parse0 env0 ''D'' (Some ''whsD'') db0 =
     (Send 200 ''ok'',
      db0\<lparr>users := [20 \<mapsto> 9],
          payments := [order0\<lparr>status := paid, razorpayPaymentId := Some ''pay_1'',
                              razorpaySignature := Some ''whsD''\<rparr>],
          creditLedger := [\<lparr>l_userId = 20, delta = 4, l_type = purchase, reason = ''payment'',
                            relatedId = Some ''razorpay:pay_1''\<rparr>],
          webhookEvents := [\<lparr>eventId = ''evt_1'', e_status = ''processed'',
              e_payload = Some (event0\<lparr>payment_entity_amount := Some 0, order_entity_amount := Some 0\<rparr>)\<rparr>]\<rparr>)"
  by (simp add: run_defs webhook_handler_def webhook_tx_def process_event_def Let_def
        webhookEvent_create_def webhookEvent_update_def payment_update_by_id_def
        creditLedger_create_def user_update_increment_def)


section \<open>Client verify endpoint: frame\<close>

text \<open>
  C4. Whatever the caller, the body, the environment and the state, a call of the
  verify endpoint leaves the ledger, every user's balance and the event markers as
  they were. The only table it can write is the order table, and then it writes the
  provider payment id and the submitted signature on the rows with the submitted order
  id. A 200 answer carries the balance stored for the caller.
\<close>

theorem verify_handler_frame:
  "creditLedger (snd (verify_handler hmac env req_user body s)) = creditLedger s
   \<and> users (snd (verify_handler hmac env req_user body s)) = users s
   \<and> webhookEvents (snd (verify_handler hmac env req_user body s)) = webhookEvents s
   \<and> (payments (snd (verify_handler hmac env req_user body s)) = payments s
      \<or> (\<exists>b. body = Some b \<and>
            payments (snd (verify_handler hmac env req_user body s)) =
              map (\<lambda>p. if razorpayOrderId p = razorpay_order_id b
                        then p\<lparr>razorpayPaymentId := Some (razorpay_payment_id b),
                               razorpaySignature := Some (razorpay_signature b)\<rparr>
                        else p) (payments s)))
   \<and> (\<forall>c m. fst (verify_handler hmac env req_user body s) = JsonBalance c m \<longrightarrow>
         (\<exists>uid. req_user = Some uid \<and> users s uid = Some c))"
  by (auto simp: verify_handler_def payment_update_by_order_def
           split: option.splits sum.splits if_splits)

theorem verify_handler_frame_witness:
  "verify_handler hmac0 env0 (Some 20)
     (Some \<lparr>razorpay_order_id = ''o1'', razorpay_payment_id = ''pay_1'',
            razorpay_signature = ''kso1|pay_1''\<rparr>) db0 =
     (JsonBalance 5 (Some ''Payment verified; credits will be applied once webhook is processed''),
      db0\<lparr>payments := [order0\<lparr>razorpayPaymentId := Some ''pay_1'',
                                razorpaySignature := Some ''kso1|pay_1''\<rparr>]\<rparr>)
   \<and> users db0 20 = Some 5"
  using verify_handler_frame [where hmac = hmac0 and env = env0 and req_user = "Some 20"
      and s = db0
      and body = "Some \<lparr>razorpay_order_id = ''o1'', razorpay_payment_id = ''pay_1'',
            razorpay_signature = ''kso1|pay_1''\<rparr>"]
  by (simp add: fixtures verify_handler_def verifyRazorpaySignature_def createHmac_digest_def
        payment_findUnique_def payment_update_by_order_def)


section \<open>Credits service: debit\<close>

text \<open>
  C5. For a user with balance \<open>c\<close>: when \<open>c < amount\<close> the debit throws the
  insufficient-credits error with status code 402 and nothing is written (no ledger
  row, same balance); otherwise it returns the balance \<open>c - amount\<close>, stores it, and
  appends exactly one ledger row of type debit with delta \<open>- amount\<close>, leaving every
  other table and user as it was.
\<close>

theorem debitCredits_spec:
  assumes "users s uid = Some c"
  shows "(c < amount \<longrightarrow>
            debitCredits uid amount rsn rel s = Inl InsufficientCredits \<and>
            statusCode InsufficientCredits = Some 402)
       \<and> (\<not> c < amount \<longrightarrow>
            debitCredits uid amount rsn rel s =
              Inr (c - amount,
                   s\<lparr>users := (users s)(uid \<mapsto> c - amount),
                     creditLedger := creditLedger s @
                       [\<lparr>l_userId = uid, delta = - amount, l_type = debit,
                         reason = rsn, relatedId = rel\<rparr>]\<rparr>))"
  using assms
  by (simp add: debitCredits_def user_update_increment_def creditLedger_create_def statusCode_def)

theorem debitCredits_spec_witness:
  "users db0 20 = Some 5
   \<and> debitCredits 20 10 ''model:gpt-5'' (Some ''req1'') db0 = Inl InsufficientCredits
   \<and> statusCode InsufficientCredits = Some 402
   \<and> debitCredits 20 3 ''model:gpt-5-mini'' (Some ''req2'') db0 =
       Inr (2, db0\<lparr>users := (users db0)(20 \<mapsto> 2),
                   creditLedger := creditLedger db0 @
                     [\<lparr>l_userId = 20, delta = - 3, l_type = debit,
                       reason = ''model:gpt-5-mini'', relatedId = Some ''req2''\<rparr>]\<rparr>)"
proof -
  have u: "users db0 20 = Some 5" by (simp add: db0_def)
  from debitCredits_spec [OF u, of 10 "''model:gpt-5''" "Some ''req1''"]
       debitCredits_spec [OF u, of 3 "''model:gpt-5-mini''" "Some ''req2''"] u
  show ?thesis by simp
qed

section \<open>Upload endpoint: refund after a failed step\<close>

lemma run_pipeline_throws:
  "(\<exists>msg. run_pipeline st = Inl msg) \<longleftrightarrow>
     isl (ocr_invoke st) \<or> isl (gen_invoke1 st) \<or> isl (gen_invoke2 st) \<or> isl (gen_invoke3 st)"
  by (auto simp: run_pipeline_def processImages_def processImage_def Let_def isl_def
           split: sum.splits)

text \<open>A model name inherited from \<open>Object.prototype\<close>: the debit throws, nothing is written.\<close>

lemma upload_inherited_model:
  "users s uid = Some c \<Longrightarrow> 0 < nfiles \<Longrightarrow> nfiles \<le> 3 \<Longrightarrow>
   upload_handler uid nfiles (Some ''constructor'') providedRequestId generated st s =
     (JsonError 500 ''Failed to process images'', s)"
  by (simp add: upload_handler_def Let_def or_s_def truthy_s_def getRequiredCredits_def
        MODEL_CREDIT_COST_def Object_prototype_keys_def debitCredits_cost_def statusCode_def)

text \<open>
  C6, as the code has it. Let the debit go through: one to three files, a model whose
  cost is a number \<open>r\<close>, a user with at least \<open>r\<close> credits. When a processing step
  throws, that is when the OCR call or one of the three generation calls fails, the
  handler answers 500 and has appended two ledger rows: the debit of \<open>r\<close> and a row
  of type purchase with delta \<open>r\<close> and reason \<open>refund:<requestId>\<close>. Both rows carry
  the same \<open>relatedId\<close>, the request id, and the balance is back at its value before
  the debit. When none of these four calls fails the handler answers 200 and the debit
  stays, whatever the test-case and evaluation calls do: those two steps return a
  fallback instead of throwing.
\<close>

theorem upload_refund_on_failure:
  assumes nf: "0 < nfiles" "nfiles \<le> 3"
    and usr: "users s uid = Some c"
    and model: "model = (case or_s body_model (Some ''gpt-4'') of None \<Rightarrow> ''gpt-4'' | Some v \<Rightarrow> v)"
    and cost: "getRequiredCredits model = Num r"
    and enough: "r \<le> c"
    and rid: "requestId = (case or_s providedRequestId (Some generated) of
                             None \<Rightarrow> generated | Some v \<Rightarrow> v)"
  shows "(isl (ocr_invoke st) \<or> isl (gen_invoke1 st) \<or> isl (gen_invoke2 st) \<or> isl (gen_invoke3 st)
            \<longrightarrow>
          upload_handler uid nfiles body_model providedRequestId generated st s =
            (JsonError 500 ''Failed to process images'',
             s\<lparr>creditLedger := creditLedger s @
                 [\<lparr>l_userId = uid, delta = - r, l_type = debit,
                   reason = ''model:'' @ model, relatedId = Some requestId\<rparr>,
                  \<lparr>l_userId = uid, delta = r, l_type = purchase,
                   reason = ''refund:'' @ requestId, relatedId = Some requestId\<rparr>]\<rparr>))
       \<and> (\<not> (isl (ocr_invoke st) \<or> isl (gen_invoke1 st) \<or> isl (gen_invoke2 st)
               \<or> isl (gen_invoke3 st))
            \<longrightarrow>
          upload_handler uid nfiles body_model providedRequestId generated st s =
            (JsonSuccess,
             s\<lparr>users := (users s)(uid \<mapsto> c - r),
               creditLedger := creditLedger s @
                 [\<lparr>l_userId = uid, delta = - r, l_type = debit,
                   reason = ''model:'' @ model, relatedId = Some requestId\<rparr>]\<rparr>))"
proof (intro conjI impI)
  assume "isl (ocr_invoke st) \<or> isl (gen_invoke1 st) \<or> isl (gen_invoke2 st) \<or> isl (gen_invoke3 st)"
  then obtain msg where thrown: "run_pipeline st = Inl msg"
    using run_pipeline_throws [of st] by blast
  have same: "(users s)(uid \<mapsto> c) = users s" using usr by (rule map_upd_triv)
  show "upload_handler uid nfiles body_model providedRequestId generated st s =
            (JsonError 500 ''Failed to process images'',
             s\<lparr>creditLedger := creditLedger s @
                 [\<lparr>l_userId = uid, delta = - r, l_type = debit,
                   reason = ''model:'' @ model, relatedId = Some requestId\<rparr>,
                  \<lparr>l_userId = uid, delta = r, l_type = purchase,
                   reason = ''refund:'' @ requestId, relatedId = Some requestId\<rparr>]\<rparr>)"
    using nf usr enough
    by (simp add: upload_handler_def Let_def model [symmetric] rid [symmetric] cost thrown
          debitCredits_cost_def creditCredits_cost_def
          debitCredits_def creditCredits_def user_update_increment_def creditLedger_create_def
          same)
next
  assume "\<not> (isl (ocr_invoke st) \<or> isl (gen_invoke1 st) \<or> isl (gen_invoke2 st)
               \<or> isl (gen_invoke3 st))"
  then have "\<not> (\<exists>msg. run_pipeline st = Inl msg)"
    using run_pipeline_throws [of st] by blast
  then obtain best where returned: "run_pipeline st = Inr best"
    by (cases "run_pipeline st") auto
  show "upload_handler uid nfiles body_model providedRequestId generated st s =
            (JsonSuccess,
             s\<lparr>users := (users s)(uid \<mapsto> c - r),
               creditLedger := creditLedger s @
                 [\<lparr>l_userId = uid, delta = - r, l_type = debit,
                   reason = ''model:'' @ model, relatedId = Some requestId\<rparr>]\<rparr>)"
    using nf usr enough
    by (simp add: upload_handler_def Let_def model [symmetric] rid [symmetric] cost returned
          debitCredits_cost_def debitCredits_def user_update_increment_def
          creditLedger_create_def)
qed

theorem upload_refund_on_failure_witness:
  "upload_handler 20 2 (Some ''gpt-5-mini'') None ''g7'' steps_ocr_throws db0 =
     (JsonError 500 ''Failed to process images'',
      db0\<lparr>creditLedger :=
          [\<lparr>l_userId = 20, delta = - 3, l_type = debit,
            reason = ''model:gpt-5-mini'', relatedId = Some ''g7''\<rparr>,
           \<lparr>l_userId = 20, delta = 3, l_type = purchase,
            reason = ''refund:g7'', relatedId = Some ''g7''\<rparr>]\<rparr>)
   \<and> upload_handler 20 2 (Some ''gpt-5-mini'') None ''g7'' steps_eval_throws db0 =
     (JsonSuccess,
      db0\<lparr>users := [20 \<mapsto> 2],
          creditLedger :=
          [\<lparr>l_userId = 20, delta = - 3, l_type = debit,
            reason = ''model:gpt-5-mini'', relatedId = Some ''g7''\<rparr>]\<rparr>)"
  using upload_refund_on_failure [where nfiles = 2 and s = db0 and uid = 20 and c = 5
      and model = "''gpt-5-mini''" and r = 3 and st = steps_ocr_throws
      and body_model = "Some ''gpt-5-mini''" and requestId = "''g7''"
      and providedRequestId = None and generated = "''g7''"]
    upload_refund_on_failure [where nfiles = 2 and s = db0 and uid = 20 and c = 5
      and model = "''gpt-5-mini''" and r = 3 and st = steps_eval_throws
      and body_model = "Some ''gpt-5-mini''" and requestId = "''g7''"
      and providedRequestId = None and generated = "''g7''"]
  by (simp add: db0_def or_s_def truthy_s_def getRequiredCredits_def MODEL_CREDIT_COST_def
        steps_ok_def steps_ocr_throws_def steps_eval_throws_def)

text \<open>
  A failed upload for request \<open>req1\<close>: debit row and refund row have the one key
  \<open>req1\<close>.
\<close>

theorem upload_refund_same_relatedId:
  "upload_handler 20 1 (Some ''gpt-5-nano'') (Some ''req1'') ''g7'' steps_ocr_throws db0 =
     (JsonError 500 ''Failed to process images'',
      db0\<lparr>creditLedger :=
          [\<lparr>l_userId = 20, delta = - 1, l_type = debit,
            reason = ''model:gpt-5-nano'', relatedId = Some ''req1''\<rparr>,
           \<lparr>l_userId = 20, delta = 1, l_type = purchase,
            reason = ''refund:req1'', relatedId = Some ''req1''\<rparr>]\<rparr>)"
  by (simp add: upload_handler_def Let_def db0_def or_s_def truthy_s_def getRequiredCredits_def
        MODEL_CREDIT_COST_def debitCredits_cost_def creditCredits_cost_def
        debitCredits_def creditCredits_def user_update_increment_def
        creditLedger_create_def run_pipeline_def processImages_def
        steps_ok_def steps_ocr_throws_def)

section \<open>Signature verifiers\<close>

lemma verifyWebhookSignature_total:
  "\<exists>b. verifyWebhookSignature hmac rawBody signature secret = Inr b"
  by (auto simp: verifyWebhookSignature_def createHmac_digest_def split: option.splits)

lemma verifyWebhookSignature_false:
  "verifyWebhookSignature hmac rawBody signature None = Inr False"
  "hmac k rawBody \<noteq> signature \<Longrightarrow> verifyWebhookSignature hmac rawBody signature (Some k) = Inr False"
  by (simp_all add: verifyWebhookSignature_def createHmac_digest_def)

text \<open>
  C7. With \<open>RAZORPAY_KEY_SECRET\<close> unset the client verifier does not return false:
  the \<open>TypeError\<close> of \<open>createHmac\<close> leaves the function, for any digest function.
  The webhook verifier returns false on the same missing secret
  (\<open>verifyWebhookSignature_false\<close>).
\<close>

theorem verifyRazorpaySignature_throws:
  "verifyRazorpaySignature hmac
     \<lparr>SITE_ID = Some ''site_a'', RAZORPAY_WEBHOOK_SECRET = Some ''whs'', RAZORPAY_KEY_SECRET = None\<rparr>
     ''order_1'' ''pay_1'' ''abc'' = Inl TypeError"
  by (simp add: verifyRazorpaySignature_def createHmac_digest_def)

section \<open>Scope check\<close>

text \<open>
  C8. Let the body parse to an event whose site tag differs from the configured
  \<open>SITE_ID\<close>. Then the delivery leaves every order, the ledger and every balance as
  they were, whatever else holds; and when it is admitted (header signature verifies,
  event id present and not yet marked) the answer is 200 and the only write is the
  event's marker, with status \<open>ignored\<close>.
\<close>

theorem webhook_scope_isolation:
  assumes ps: "parse raw = Some payload"
    and site: "site_differs (extract_siteId payload) (SITE_ID env)"
  shows "users (snd (webhook_handler hmac parse env raw sig_header s)) = users s
       \<and> payments (snd (webhook_handler hmac parse env raw sig_header s)) = payments s
       \<and> creditLedger (snd (webhook_handler hmac parse env raw sig_header s)) = creditLedger s
       \<and> (\<forall>signature eid.
            sig_header = Some signature \<and> signature \<noteq> []
            \<and> verifyWebhookSignature hmac raw signature (RAZORPAY_WEBHOOK_SECRET env) = Inr True
            \<and> or_s (ev_id payload) None = Some eid
            \<and> eid \<notin> set (map eventId (webhookEvents s))
            \<longrightarrow> webhook_handler hmac parse env raw sig_header s =
                  (Send 200 ''ok'',
                   s\<lparr>webhookEvents := webhookEvents s @
                       [\<lparr>eventId = eid, e_status = ''ignored'', e_payload = Some payload\<rparr>]\<rparr>))"
proof -
  have frame: "users s' = users s \<and> payments s' = payments s \<and> creditLedger s' = creditLedger s"
    if "parse raw = Some pl" and "webhook_tx env sg pl eid s = Inr s'" for sg pl eid s'
  proof -
    from that(1) ps have "pl = payload" by simp
    with that(2) site show ?thesis
      by (auto simp: webhook_tx_ignored split: sum.splits
               dest!: webhookEvent_update_frame webhookEvent_create_frame)
  qed
  have adm: "webhook_handler hmac parse env raw sig_header s =
                  (Send 200 ''ok'',
                   s\<lparr>webhookEvents := webhookEvents s @
                       [\<lparr>eventId = eid, e_status = ''ignored'', e_payload = Some payload\<rparr>]\<rparr>)"
    if sh: "sig_header = Some signature" and sg: "signature \<noteq> []"
      and vf: "verifyWebhookSignature hmac raw signature (RAZORPAY_WEBHOOK_SECRET env) = Inr True"
      and ei: "or_s (ev_id payload) None = Some eid"
      and fresh: "eid \<notin> set (map eventId (webhookEvents s))" for signature eid
  proof -
    have "webhook_tx env signature payload eid s =
            Inr (s\<lparr>webhookEvents := webhookEvents s @
                       [\<lparr>eventId = eid, e_status = ''ignored'', e_payload = Some payload\<rparr>]\<rparr>)"
      using site fresh
      by (simp add: webhook_tx_ignored webhookEvent_create_fresh webhookEvent_update_last [OF fresh])
    with sh sg vf ps ei show ?thesis by (rule webhook_handler_admitted)
  qed
  have fr: "users (snd (webhook_handler hmac parse env raw sig_header s)) = users s
       \<and> payments (snd (webhook_handler hmac parse env raw sig_header s)) = payments s
       \<and> creditLedger (snd (webhook_handler hmac parse env raw sig_header s)) = creditLedger s"
  proof (rule webhook_handler_frame_tx)
    fix sg pl eid s'
    assume "parse raw = Some pl" and "webhook_tx env sg pl eid s = Inr s'"
    then show "users s' = users s \<and> payments s' = payments s \<and> creditLedger s' = creditLedger s"
      by (rule frame)
  qed
  from fr adm show ?thesis by blast
qed

theorem webhook_scope_isolation_witness:
  "webhook_handler hmac0 parse0 env0 ''C'' (Some ''whsC'') db0 =
     (Send 200 ''ok'',
      db0\<lparr>webhookEvents :=
            [\<lparr>eventId = ''evt_1'', e_status = ''ignored'',
              e_payload = Some (event0\<lparr>payment_entity_notes_website_id := Some ''site_b''\<rparr>)\<rparr>]\<rparr>)"
  using webhook_scope_isolation [where parse = parse0 and raw = "''C''" and env = env0
      and payload = "event0\<lparr>payment_entity_notes_website_id := Some ''site_b''\<rparr>"
      and hmac = hmac0 and sig_header = "Some ''whsC''" and s = db0]
  by (simp add: run_defs)


section \<open>Events without an amount\<close>

text \<open>
  C9. Let both \<open>payment.entity.amount\<close> and \<open>order.entity.amount\<close> be falsy (absent,
  null or 0). An admitted delivery with this deployment's site tag, an order id that
  finds a stored order (whatever its \<open>amountPaise\<close>), a type among captured,
  authorized and order-paid, an existing owner and no ledger row under the payment's
  key is answered 200 and credits the order's purchased credits in full.
\<close>

theorem webhook_no_amount_credits:
  assumes sh: "sig_header = Some signature" and sg: "signature \<noteq> []"
    and vf: "verifyWebhookSignature hmac raw signature (RAZORPAY_WEBHOOK_SECRET env) = Inr True"
    and ps: "parse raw = Some payload"
    and ei: "or_s (ev_id payload) None = Some eid"
    and fresh: "eid \<notin> set (map eventId (webhookEvents s))"
    and site: "\<not> site_differs (extract_siteId payload) (SITE_ID env)"
    and oid: "or_s (order_entity_id payload) (payment_entity_order_id payload) = Some oid"
    and pay: "payment_findUnique oid s = Some payment"
    and noamt: "\<not> truthy_n (payment_entity_amount payload)"
               "\<not> truthy_n (order_entity_amount payload)"
    and ev: "is_paid_event (ev_event payload)"
    and usr: "users s (userId payment) = Some c"
    and key: "creditLedger_findFirst (ledger_key (or_s (payment_entity_id payload) None)) s = None"
  shows "webhook_handler hmac parse env raw sig_header s =
           (Send 200 ''ok'',
            s\<lparr>users := (users s)(userId payment \<mapsto> c + creditsPurchased payment),
              payments := map (\<lambda>p. if id_p p = id_p payment
                             then p\<lparr>status := paid,
                                    razorpayPaymentId := or_s (payment_entity_id payload) None,
                                    razorpaySignature := Some signature\<rparr>
                             else p) (payments s),
              creditLedger := creditLedger s @
                [\<lparr>l_userId = userId payment, delta = creditsPurchased payment, l_type = purchase,
                  reason = ''payment'',
                  relatedId = Some (ledger_key (or_s (payment_entity_id payload) None))\<rparr>],
              webhookEvents := webhookEvents s @
                [\<lparr>eventId = eid, e_status = ''processed'', e_payload = Some payload\<rparr>]\<rparr>)"
proof -
  have g: "\<not> (truthy_n (reported_amount payload)
              \<and> reported_amount payload \<noteq> Some (amountPaise payment))"
    using noamt by (simp add: reported_amount_def or_n_def)
  have tx: "webhook_tx env signature payload eid s =
              Inr (credited signature payload eid payment c s)"
    by (rule webhook_tx_credit [OF fresh site oid pay g ev usr key])
  have "webhook_handler hmac parse env raw sig_header s =
          (Send 200 ''ok'', credited signature payload eid payment c s)"
    using sh sg vf ps ei tx by (rule webhook_handler_admitted)
  then show ?thesis by (simp add: credited_def)
qed

theorem webhook_no_amount_credits_witness:
  "webhook_handler hmac0 parse0 env0 ''E'' (Some ''whsE'') db0 =
     (Send 200 ''ok'',
      db0\<lparr>users := [20 \<mapsto> 9],
          payments := [order0\<lparr>status := paid, razorpayPaymentId := Some ''pay_1'',
                              razorpaySignature := Some ''whsE''\<rparr>],
          creditLedger := [\<lparr>l_userId = 20, delta = 4, l_type = purchase, reason = ''payment'',
                            relatedId = Some ''razorpay:pay_1''\<rparr>],
          webhookEvents := [\<lparr>eventId = ''evt_1'', e_status = ''processed'',
              e_payload = Some (event0\<lparr>payment_entity_amount := None, order_entity_amount := None\<rparr>)\<rparr>]\<rparr>)"
  using webhook_no_amount_credits [where sig_header = "Some ''whsE''" and signature = "''whsE''"
      and hmac = hmac0 and raw = "''E''" and env = env0 and parse = parse0
      and payload = "event0\<lparr>payment_entity_amount := None, order_entity_amount := None\<rparr>"
      and eid = "''evt_1''" and s = db0 and oid = "''o1''" and payment = order0 and c = 5]
  by (simp add: run_defs)


section \<open>Client verify endpoint: ownership\<close>

text \<open>
  C10, as the code has it. Take an authenticated call whose order id finds an order of
  another user. The call writes nothing, and in any state where the order id finds no
  order the same call gets the same answer and writes nothing either. The answer is
  404 \<open>Payment not found\<close> when the submitted signature verifies; the signature is
  checked before the order is looked up, so a signature that does not verify is
  answered 400 \<open>Invalid signature\<close>.
\<close>

theorem verify_foreign_order:
  assumes "req_user = Some uid" and "uid \<noteq> 0" and "body = Some b"
    and "payment_findUnique (razorpay_order_id b) s = Some payment"
    and "userId payment \<noteq> uid"
  shows "snd (verify_handler hmac env req_user body s) = s
       \<and> (\<forall>t. payment_findUnique (razorpay_order_id b) t = None \<longrightarrow>
              fst (verify_handler hmac env req_user body t) =
                fst (verify_handler hmac env req_user body s)
              \<and> snd (verify_handler hmac env req_user body t) = t)
       \<and> (verifyRazorpaySignature hmac env (razorpay_order_id b) (razorpay_payment_id b)
             (razorpay_signature b) = Inr True \<longrightarrow>
            fst (verify_handler hmac env req_user body s) = JsonError 404 ''Payment not found'')
       \<and> (verifyRazorpaySignature hmac env (razorpay_order_id b) (razorpay_payment_id b)
             (razorpay_signature b) = Inr False \<longrightarrow>
            fst (verify_handler hmac env req_user body s) = JsonError 400 ''Invalid signature'')"
  using assms by (auto simp: verify_handler_def split: sum.splits)

theorem verify_foreign_order_witness:
  "verify_handler hmac0 env0 (Some 21)
     (Some \<lparr>razorpay_order_id = ''o1'', razorpay_payment_id = ''pay_1'',
            razorpay_signature = ''kso1|pay_1''\<rparr>) db0 =
     (JsonError 404 ''Payment not found'', db0)
   \<and> payment_findUnique ''o1'' (db0\<lparr>payments := []\<rparr>) = None
   \<and> verify_handler hmac0 env0 (Some 21)
     (Some \<lparr>razorpay_order_id = ''o1'', razorpay_payment_id = ''pay_1'',
            razorpay_signature = ''kso1|pay_1''\<rparr>) (db0\<lparr>payments := []\<rparr>) =
     (JsonError 404 ''Payment not found'', db0\<lparr>payments := []\<rparr>)"
proof -
  have n: "payment_findUnique ''o1'' (db0\<lparr>payments := []\<rparr>) = None"
    by (simp add: payment_findUnique_def)
  from verify_foreign_order [where req_user = "Some 21" and uid = 21 and hmac = hmac0
      and env = env0 and s = db0 and payment = order0
      and body = "Some \<lparr>razorpay_order_id = ''o1'', razorpay_payment_id = ''pay_1'',
            razorpay_signature = ''kso1|pay_1''\<rparr>"
      and b = "\<lparr>razorpay_order_id = ''o1'', razorpay_payment_id = ''pay_1'',
            razorpay_signature = ''kso1|pay_1''\<rparr>"] n
  show ?thesis
    by (simp add: fixtures verify_handler_def verifyRazorpaySignature_def createHmac_digest_def
          payment_findUnique_def)
qed

text \<open>
  User 21 submits a signature that does not verify for the order of user 20: the
  answer is 400, not 404.
\<close>

theorem verify_foreign_order_forged:
  "payment_findUnique ''o1'' db0 = Some order0
   \<and> userId order0 = 20
   \<and> verify_handler hmac0 env0 (Some 21)
     (Some \<lparr>razorpay_order_id = ''o1'', razorpay_payment_id = ''pay_1'',
            razorpay_signature = ''forged''\<rparr>) db0 =
     (JsonError 400 ''Invalid signature'', db0)"
  by (simp add: fixtures verify_handler_def verifyRazorpaySignature_def createHmac_digest_def
        payment_findUnique_def)

end
